theory Spec2Isabelle
  imports
    Complex_Main
    "HOL-Library.Multiset"
    "HOL-Library.Sublist"
    "HOL-Library.Char_ord"
    "HOL-Library.List_Lexorder"
begin

section \<open>The games dashboard: data model\<close>

text \<open>
  The dashboard (\<^verbatim>\<open>src/app.py\<close>) holds one table, loaded by \<^verbatim>\<open>load_full_dataset\<close> with the
  columns \<^verbatim>\<open>id, name, cover_url, rating, rating_count, igdb_url, first_release_date, hypes,
  dlt_load_timestamp\<close>. A row is a record; every column of the warehouse table may hold a
  null, so every field is an \<open>option\<close> (\<open>None\<close> is the null). A data frame is the list of
  its rows, in order.

  \<^item> \<open>rating\<close> is a float column. It is modelled by the exact rational it denotes; NaN and
    the infinities have no counterpart here.
  \<^item> \<open>first_release_date\<close> is a date column, modelled by its day number; the timestamp by
    its tick count.
  \<^item> strings are sequences of characters; case mapping is modelled on the ASCII letters.
\<close>

type_synonym date = int

record game =
  game_id :: "int option"
  name :: "string option"
  cover_url :: "string option"
  rating :: "rat option"
  rating_count :: "int option"
  igdb_url :: "string option"
  first_release_date :: "date option"
  hypes :: "int option"
  dlt_load_timestamp :: "int option"

type_synonym dataframe = "game list"

definition ROWS_PER_PAGE :: nat where
  "ROWS_PER_PAGE = 20"

section \<open>The column expressions of the filters\<close>

text \<open>
  A boolean column expression evaluates, on one row, to true, false or null. The operator
  \<^verbatim>\<open>&\<close> is the three-valued conjunction, a comparison with a null operand is null, and
  \<^verbatim>\<open>DataFrame.filter\<close> keeps exactly the rows on which the predicate is true.
\<close>

fun kleene_and :: "bool option \<Rightarrow> bool option \<Rightarrow> bool option" where
  "kleene_and (Some False) _ = Some False"
| "kleene_and _ (Some False) = Some False"
| "kleene_and (Some True) (Some True) = Some True"
| "kleene_and _ _ = None"

definition col_ge :: "'a::linorder option \<Rightarrow> 'a \<Rightarrow> bool option" where
  "col_ge v c = map_option (\<lambda>x. c \<le> x) v"

definition col_le :: "'a::linorder option \<Rightarrow> 'a \<Rightarrow> bool option" where
  "col_le v c = map_option (\<lambda>x. x \<le> c) v"

definition col_gt :: "'a::linorder option \<Rightarrow> 'a \<Rightarrow> bool option" where
  "col_gt v c = map_option (\<lambda>x. c < x) v"

definition df_filter :: "('r \<Rightarrow> bool option) \<Rightarrow> 'r list \<Rightarrow> 'r list" where
  "df_filter p df = filter (\<lambda>g. p g = Some True) df"

subsection \<open>Lower-casing\<close>

text \<open>
  \<^verbatim>\<open>search.lower()\<close> and \<^verbatim>\<open>str.to_lowercase()\<close> agree on ASCII text: the letters
  \<open>A\<close> to \<open>Z\<close> (codes 65 to 90) move to \<open>a\<close> to \<open>z\<close>, every other character stays.
\<close>

definition lower_char :: "char \<Rightarrow> char" where
  "lower_char c =
     (let n = (of_char c :: nat) in if 65 \<le> n \<and> n \<le> 90 then char_of (n + 32) else c)"

definition to_lowercase :: "string \<Rightarrow> string" where
  "to_lowercase s = map lower_char s"

subsection \<open>\<^verbatim>\<open>str.contains\<close>: a search for a regular expression\<close>

text \<open>
  \<^verbatim>\<open>Expr.str.contains(pattern)\<close> is called without \<^verbatim>\<open>literal=True\<close>, so the pattern is a
  regular expression and the expression is true on a string that has a match somewhere.
  The model covers the patterns built from two kinds of atoms: a character that is not a
  metacharacter of the expression syntax stands for itself, and the dot stands for any
  character but the line feed. A pattern that uses any other metacharacter (backslash,
  \<open>+ * ? ( ) | [ ] { } ^ $ # & - ~\<close>) is outside the model: \<open>compile_regex\<close> answers
  \<open>None\<close> and the filters answer \<open>Pattern_outside_model\<close>.
\<close>

datatype atom = Lit char | Any_char

definition is_meta_character :: "char \<Rightarrow> bool" where
  "is_meta_character c \<longleftrightarrow> c \<in> set (CHR 0x5C # ''.+*?()|[]{}^$#&-~'')"

definition parse_atom :: "char \<Rightarrow> atom option" where
  "parse_atom c =
     (if c = CHR ''.'' then Some Any_char
      else if is_meta_character c then None
      else Some (Lit c))"

fun compile_regex :: "string \<Rightarrow> atom list option" where
  "compile_regex [] = Some []"
| "compile_regex (c # cs) =
     (case parse_atom c of
        None \<Rightarrow> None
      | Some a \<Rightarrow> map_option ((#) a) (compile_regex cs))"

fun atom_matches :: "atom \<Rightarrow> char \<Rightarrow> bool" where
  "atom_matches (Lit a) c = (a = c)"
| "atom_matches Any_char c = (c \<noteq> CHR 0x0A)"

fun match_here :: "atom list \<Rightarrow> string \<Rightarrow> bool" where
  "match_here [] cs = True"
| "match_here (a # as) [] = False"
| "match_here (a # as) (c # cs) = (atom_matches a c \<and> match_here as cs)"

fun regex_search :: "atom list \<Rightarrow> string \<Rightarrow> bool" where
  "regex_search as [] = match_here as []"
| "regex_search as (c # cs) = (match_here as (c # cs) \<or> regex_search as cs)"

definition str_contains :: "string option \<Rightarrow> atom list \<Rightarrow> bool option" where
  "str_contains v pat = map_option (regex_search pat) v"

definition name_contains :: "atom list \<Rightarrow> game \<Rightarrow> bool option" where
  "name_contains pat g = str_contains (map_option to_lowercase (name g)) pat"

section \<open>\<^verbatim>\<open>DataFrame.sort\<close>\<close>

text \<open>
  Both filters end in \<^verbatim>\<open>DataFrame.sort(column, descending=...)\<close> and neither passes
  \<^verbatim>\<open>maintain_order=True\<close>. The library then promises a rearrangement of the rows that is
  ordered by the column, and nothing about rows with equal keys. The sorting routine of the
  library is therefore a parameter of the model: any function from an order on rows and a
  list of rows to a list of rows. \<open>sort_contract\<close> is what the library promises of it;
  \<open>stable_routine\<close> is the further property that \<^verbatim>\<open>maintain_order=True\<close> would add.
\<close>

type_synonym 'r sort_routine = "('r \<Rightarrow> 'r \<Rightarrow> bool) \<Rightarrow> 'r list \<Rightarrow> 'r list"

definition total_preorder :: "('r \<Rightarrow> 'r \<Rightarrow> bool) \<Rightarrow> bool" where
  "total_preorder le \<longleftrightarrow>
     (\<forall>a b. le a b \<or> le b a) \<and> (\<forall>a b c. le a b \<longrightarrow> le b c \<longrightarrow> le a c)"

definition sort_contract :: "'r sort_routine \<Rightarrow> bool" where
  "sort_contract srt \<longleftrightarrow>
     (\<forall>le xs. total_preorder le \<longrightarrow>
        mset (srt le xs) = mset xs \<and> sorted_wrt le (srt le xs))"



text \<open>
  The order of the rows by one column. Nulls come first in either direction (the default
  \<^verbatim>\<open>nulls_last=False\<close>); the other rows ascend or descend by the value.
\<close>

definition column_order :: "('r \<Rightarrow> 'k::linorder option) \<Rightarrow> bool \<Rightarrow> 'r \<Rightarrow> 'r \<Rightarrow> bool" where
  "column_order col descending a b =
     (case col a of
        None \<Rightarrow> True
      | Some x \<Rightarrow>
          (case col b of
             None \<Rightarrow> False
           | Some y \<Rightarrow> if descending then y \<le> x else x \<le> y))"

datatype failure = ColumnNotFoundError | Pattern_outside_model

definition sort_order :: "string \<Rightarrow> bool \<Rightarrow> (game \<Rightarrow> game \<Rightarrow> bool) option" where
  "sort_order column descending =
     (if column = ''id'' then Some (column_order game_id descending)
      else if column = ''name'' then Some (column_order name descending)
      else if column = ''cover_url'' then Some (column_order cover_url descending)
      else if column = ''rating'' then Some (column_order rating descending)
      else if column = ''rating_count'' then Some (column_order rating_count descending)
      else if column = ''igdb_url'' then Some (column_order igdb_url descending)
      else if column = ''first_release_date'' then
        Some (column_order first_release_date descending)
      else if column = ''hypes'' then Some (column_order hypes descending)
      else if column = ''dlt_load_timestamp'' then
        Some (column_order dlt_load_timestamp descending)
      else None)"

definition df_sort :: "game sort_routine \<Rightarrow> dataframe \<Rightarrow> string \<Rightarrow> bool \<Rightarrow> failure + dataframe" where
  "df_sort srt df column descending =
     (case sort_order column descending of
        None \<Rightarrow> Inl ColumnNotFoundError
      | Some le \<Rightarrow> Inr (srt le df))"

subsection \<open>Two sorting routines\<close>

text \<open>
  Insertion sort, which keeps rows with equal keys in their input order, and the same sort
  run on the reversed input, which reverses them. Both keep the library's promise.
\<close>

fun insort_by :: "('r \<Rightarrow> 'r \<Rightarrow> bool) \<Rightarrow> 'r \<Rightarrow> 'r list \<Rightarrow> 'r list" where
  "insort_by le x [] = [x]"
| "insort_by le x (y # ys) = (if le x y then x # y # ys else y # insort_by le x ys)"

fun stable_sort_by :: "'r sort_routine" where
  "stable_sort_by le [] = []"
| "stable_sort_by le (x # xs) = insort_by le x (stable_sort_by le xs)"


section \<open>Filter and paginate\<close>

text \<open>\<^verbatim>\<open>filter_data\<close> (lines 43 to 55).\<close>

definition popular_predicate :: "atom list \<Rightarrow> int \<times> int \<Rightarrow> int \<Rightarrow> game \<Rightarrow> bool option" where
  "popular_predicate pat rating_range min_count g =
     kleene_and
       (kleene_and
          (kleene_and (name_contains pat g) (col_ge (rating g) (of_int (fst rating_range))))
          (col_le (rating g) (of_int (snd rating_range))))
       (col_ge (rating_count g) min_count)"

definition filter_data ::
  "game sort_routine \<Rightarrow> dataframe \<Rightarrow> string \<Rightarrow> int \<times> int \<Rightarrow> int \<Rightarrow> string \<Rightarrow> string
     \<Rightarrow> failure + dataframe" where
  "filter_data srt df search rating_range min_count sort_by order =
     (case compile_regex (to_lowercase search) of
        None \<Rightarrow> Inl Pattern_outside_model
      | Some pat \<Rightarrow>
          (let filtered = df_filter (popular_predicate pat rating_range min_count) df
           in if order = ''ASC'' then df_sort srt filtered sort_by False
              else df_sort srt filtered sort_by True))"

text \<open>
  \<^verbatim>\<open>filter_upcoming_data\<close> (lines 57 to 71). The function reads the clock
  (\<^verbatim>\<open>date.today()\<close>); the day it reads is the argument \<open>today\<close>.
\<close>

definition upcoming_predicate :: "date \<Rightarrow> atom list \<Rightarrow> int \<Rightarrow> int \<Rightarrow> game \<Rightarrow> bool option" where
  "upcoming_predicate today pat min_hypes max_hypes g =
     kleene_and
       (kleene_and
          (kleene_and (col_gt (first_release_date g) today) (name_contains pat g))
          (col_ge (hypes g) min_hypes))
       (col_le (hypes g) max_hypes)"

definition filter_upcoming_data ::
  "game sort_routine \<Rightarrow> date \<Rightarrow> dataframe \<Rightarrow> string \<Rightarrow> int \<Rightarrow> int \<Rightarrow> string \<Rightarrow> string
     \<Rightarrow> failure + dataframe" where
  "filter_upcoming_data srt today df search min_hypes max_hypes sort_by order =
     (case compile_regex (to_lowercase search) of
        None \<Rightarrow> Inl Pattern_outside_model
      | Some pat \<Rightarrow>
          (let filtered = df_filter (upcoming_predicate today pat min_hypes max_hypes) df;
               descending = (order = ''Descending'')
           in if sort_by = ''Release Date'' then
                df_sort srt filtered ''first_release_date'' descending
              else df_sort srt filtered ''hypes'' descending))"

text \<open>
  \<^verbatim>\<open>DataFrame.slice(offset, length)\<close>: a negative offset counts from the end, and both ends
  of the window are clipped to the frame. \<^verbatim>\<open>paginate\<close> (lines 73 to 75) calls it.
\<close>

definition df_slice :: "'r list \<Rightarrow> int \<Rightarrow> nat \<Rightarrow> 'r list" where
  "df_slice df offset len =
     (let n = int (length df);
          start = (if offset < 0 then offset + n else offset);
          stop = start + int len;
          clamped_start = max 0 (min n start);
          clamped_stop = max 0 (min n stop)
      in take (nat (clamped_stop - clamped_start)) (drop (nat clamped_start) df))"

definition paginate :: "'r list \<Rightarrow> int \<Rightarrow> nat \<Rightarrow> 'r list" where
  "paginate df page rows_per_page =
     (let start = (page - 1) * int rows_per_page in df_slice df start rows_per_page)"

text \<open>
  \<^verbatim>\<open>max(1, math.ceil(total_games / ROWS_PER_PAGE))\<close> (lines 186 and 241). The quotient is a
  float in the source; for a row count below \<open>2^53\<close> its ceiling is the ceiling of the exact
  quotient, which is what is written here.
\<close>

definition total_pages :: "int \<Rightarrow> int" where
  "total_pages total_games = max 1 \<lceil>rat_of_int total_games / rat_of_int (int ROWS_PER_PAGE)\<rceil>"

section \<open>The two views and their page number\<close>









text \<open>The order by which \<^verbatim>\<open>filter_upcoming_data\<close> sorts, from its two last arguments.\<close>

definition upcoming_order :: "string \<Rightarrow> string \<Rightarrow> game \<Rightarrow> game \<Rightarrow> bool" where
  "upcoming_order sb ord =
     (if sb = ''Release Date'' then column_order first_release_date (ord = ''Descending'')
      else column_order hypes (ord = ''Descending''))"

section \<open>The predicates of the specification\<close>

text \<open>
  The specification's words for the two filters, to compare the code with: the search
  string is a substring of the title once both are lower-cased (so the empty search
  matches every title), the rating lies in the inclusive range and the rating count
  reaches the minimum; for the upcoming view, the release date is strictly after the
  current date and the hype count lies in the inclusive range. A null has no title, no
  rating, no count and no date, so a row with a null in one of these columns does not
  satisfy the predicate.
\<close>

definition title_contains :: "string \<Rightarrow> string \<Rightarrow> bool" where
  "title_contains search title \<longleftrightarrow> sublist (to_lowercase search) (to_lowercase title)"

definition popular_spec :: "string \<Rightarrow> int \<Rightarrow> int \<Rightarrow> int \<Rightarrow> game \<Rightarrow> bool" where
  "popular_spec search rating_min rating_max min_rating_count g \<longleftrightarrow>
     (case name g of None \<Rightarrow> False | Some t \<Rightarrow> title_contains search t)
     \<and> (case rating g of
          None \<Rightarrow> False
        | Some r \<Rightarrow> of_int rating_min \<le> r \<and> r \<le> of_int rating_max)
     \<and> (case rating_count g of None \<Rightarrow> False | Some n \<Rightarrow> min_rating_count \<le> n)"

definition upcoming_spec :: "date \<Rightarrow> string \<Rightarrow> int \<Rightarrow> int \<Rightarrow> game \<Rightarrow> bool" where
  "upcoming_spec today search hype_min hype_max g \<longleftrightarrow>
     (case first_release_date g of None \<Rightarrow> False | Some d \<Rightarrow> today < d)
     \<and> (case name g of None \<Rightarrow> False | Some t \<Rightarrow> title_contains search t)
     \<and> (case hypes g of None \<Rightarrow> False | Some h \<Rightarrow> hype_min \<le> h \<and> h \<le> hype_max)"

text \<open>
  What a sort returns: a rearrangement of its input that is ordered; and the specification's
  further demand of a stable sort, that rows with the same key keep their input order.
\<close>

definition ordered_rearrangement :: "('r \<Rightarrow> 'r \<Rightarrow> bool) \<Rightarrow> 'r list \<Rightarrow> 'r list \<Rightarrow> bool" where
  "ordered_rearrangement le xs ys \<longleftrightarrow> mset ys = mset xs \<and> sorted_wrt le ys"


text \<open>A search string without a metacharacter of the expression syntax.\<close>

definition plain_text :: "string \<Rightarrow> bool" where
  "plain_text s \<longleftrightarrow> list_all (\<lambda>c. \<not> is_meta_character c) s"

section \<open>Sample rows\<close>

text \<open>
  Rows for the worked examples: identifier, title, rating, rating count, release day and
  hype count are given, the other columns are null; \<open>unrated_game\<close> has a null rating.
\<close>

definition sample_game :: "int \<Rightarrow> string \<Rightarrow> rat \<Rightarrow> int \<Rightarrow> date \<Rightarrow> int \<Rightarrow> game" where
  "sample_game i title r n d h =
     \<lparr>game_id = Some i, name = Some title, cover_url = None, rating = Some r,
      rating_count = Some n, igdb_url = None, first_release_date = Some d, hypes = Some h,
      dlt_load_timestamp = None\<rparr>"


section \<open>Pagination\<close>

lemma ceiling_div20: "\<lceil>rat_of_int n / 20\<rceil> = (n + 19) div 20"
proof (rule ceiling_unique)
  define z where "z = (n + 19) div 20"
  define m where "m = (n + 19) mod 20"
  have dm: "n + 19 = 20 * z + m" unfolding z_def m_def by simp
  have m: "0 \<le> m" "m < 20" unfolding m_def by simp_all
  have lo: "20 * z - 20 < n" and hi: "n \<le> 20 * z" using dm m by linarith+
  have "rat_of_int (20 * z - 20) < rat_of_int n" using lo by (simp only: of_int_less_iff)
  then show "rat_of_int ((n + 19) div 20) - 1 < rat_of_int n / 20"
    unfolding z_def [symmetric] by simp
  have "rat_of_int n \<le> rat_of_int (20 * z)" using hi by (simp only: of_int_le_iff)
  then show "rat_of_int n / 20 \<le> rat_of_int ((n + 19) div 20)"
    unfolding z_def [symmetric] by simp
qed

lemma total_pages_div: "total_pages n = max 1 ((n + 19) div 20)"
  by (simp add: total_pages_def ROWS_PER_PAGE_def ceiling_div20)

lemma take_min_length: "take (min (length ys) m) ys = take m ys"
  by (cases "length ys \<le> m") (simp_all add: min_def)

lemma df_slice_nat: "df_slice df (int k) n = take n (drop k df)"
proof -
  let ?L = "length df"
  have cs: "max 0 (min (int ?L) (int k)) = int (min ?L k)"
    by linarith
  have ce: "max 0 (min (int ?L) (int k + int n)) = int (min ?L (k + n))"
    by linarith
  have len: "nat (int (min ?L (k + n)) - int (min ?L k)) = min ?L (k + n) - min ?L k"
    by linarith
  have st: "(if int k < 0 then int k + int ?L else int k) = int k"
    by simp
  have "df_slice df (int k) n = take (min ?L (k + n) - min ?L k) (drop (min ?L k) df)"
    unfolding df_slice_def Let_def by (simp only: st cs ce len nat_int)
  also have "\<dots> = take n (drop k df)"
  proof (cases "k \<le> ?L")
    case True
    then have "min ?L (k + n) - min ?L k = min (length (drop k df)) n"
      by (simp only: length_drop)
    with True show ?thesis by (simp only: take_min_length min_absorb2)
  next
    case False
    then show ?thesis by simp
  qed
  finally show ?thesis .
qed

lemma paginate_take_drop:
  assumes "1 \<le> page"
  shows "paginate df page n = take n (drop (nat ((page - 1) * int n)) df)"
proof -
  have "0 \<le> (page - 1) * int n" using assms by simp
  then obtain k where k: "(page - 1) * int n = int k"
    using nonneg_int_cases by blast
  then show ?thesis by (simp only: paginate_def Let_def df_slice_nat nat_int)
qed

lemma length_df_slice: "length (df_slice df offset n) \<le> n"
proof -
  define L where "L = int (length df)"
  define start where "start = (if offset < 0 then offset + L else offset)"
  have a: "min L (start + int n) \<le> min L start + int n"
    by simp
  have "max 0 (min L (start + int n)) \<le> max 0 (min L start) + int n"
    using a by linarith
  then have "nat (max 0 (min L (start + int n)) - max 0 (min L start)) \<le> n"
    by simp
  then show ?thesis
    unfolding df_slice_def Let_def L_def start_def
    by (simp only: length_take) (rule min.coboundedI2)
qed



lemma concat_pages_take:
  "concat (map (\<lambda>k. take n (drop (k * n) xs)) [0..<m]) = take (m * n) xs"
proof (induction m)
  case 0 show ?case by simp
next
  case (Suc m)
  have "Suc m * n = m * n + n" by simp
  then have "take (Suc m * n) xs = take (m * n) xs @ take n (drop (m * n) xs)"
    by (simp only: take_add)
  with Suc show ?case by simp
qed

lemma pages_as_chunks:
  "map (\<lambda>p. paginate df (int p) n) [1..<Suc m] = map (\<lambda>k. take n (drop (k * n) df)) [0..<m]"
proof (induction m)
  case 0 show ?case by simp
next
  case (Suc m)
  have "paginate df (int (Suc m)) n = take n (drop (nat ((int (Suc m) - 1) * int n)) df)"
    by (rule paginate_take_drop) simp
  moreover have "nat ((int (Suc m) - 1) * int n) = m * n"
    by (simp add: nat_mult_distrib)
  ultimately have "paginate df (int (Suc m)) n = take n (drop (m * n) df)"
    by simp
  with Suc show ?case by simp
qed

lemma concat_paginate:
  assumes "length df \<le> m * n"
  shows "concat (map (\<lambda>p. paginate df (int p) n) [1..<Suc m]) = df"
  using assms by (simp only: pages_as_chunks concat_pages_take take_all)



text \<open>
  C6. The number of pages is \<open>max(1, ceil(count / 20))\<close>, which is \<open>max(1, (count + 19) div 20)\<close>
  in integers and never below 1; it is 1 for 0 rows, 1 for 20 rows and 2 for 21 rows.
\<close>

theorem total_pages_is_max_one_ceiling:
  "total_pages n = max 1 \<lceil>rat_of_int n / 20\<rceil>
   \<and> total_pages n = max 1 ((n + 19) div 20)
   \<and> 1 \<le> total_pages n
   \<and> total_pages 0 = 1 \<and> total_pages 20 = 1 \<and> total_pages 21 = 2"
proof -
  have "total_pages n = max 1 \<lceil>rat_of_int n / 20\<rceil>"
    by (simp add: total_pages_def ROWS_PER_PAGE_def)
  moreover have "total_pages 0 = 1" "total_pages 20 = 1" "total_pages 21 = 2"
    by (simp_all add: total_pages_div)
  moreover have "1 \<le> total_pages n"
    by (simp add: total_pages_div)
  ultimately show ?thesis
    using total_pages_div [of n] by simp
qed

text \<open>
  C7. For every sequence and every page size of at least 1, no page holds more rows than
  the page size, and the pages 1, 2, ... up to the last one (\<open>max(1, ceil(length / size))\<close>),
  concatenated in order, are the sequence itself; with the page size 20 the last page is
  the number that \<open>total_pages\<close> computes.
\<close>

theorem paginate_pages_rebuild_sequence:
  assumes "1 \<le> rows_per_page"
  shows "length (paginate df page rows_per_page) \<le> rows_per_page
         \<and> concat (map (\<lambda>p. paginate df (int p) rows_per_page)
              [1 ..< Suc (max 1 ((length df + rows_per_page - 1) div rows_per_page))]) = df
         \<and> concat (map (\<lambda>p. paginate df (int p) ROWS_PER_PAGE)
              [1 ..< Suc (nat (total_pages (int (length df))))]) = df"
proof -
  have len: "length (paginate df page rows_per_page) \<le> rows_per_page"
    by (simp add: paginate_def length_df_slice)
  define q where "q = (length df + rows_per_page - 1) div rows_per_page"
  define r where "r = (length df + rows_per_page - 1) mod rows_per_page"
  have "length df + rows_per_page - 1 = q * rows_per_page + r"
    unfolding q_def r_def by simp
  moreover have "r < rows_per_page"
    unfolding r_def using assms by simp
  ultimately have "length df \<le> q * rows_per_page" by linarith
  also have "\<dots> \<le> max 1 q * rows_per_page" by simp
  finally have gen: "concat (map (\<lambda>p. paginate df (int p) rows_per_page) [1 ..< Suc (max 1 q)]) = df"
    by (rule concat_paginate)
  define z where "z = (int (length df) + 19) div 20"
  define m where "m = (int (length df) + 19) mod 20"
  have "int (length df) + 19 = 20 * z + m" unfolding z_def m_def by simp
  moreover have "m < 20" unfolding m_def by simp
  moreover have "total_pages (int (length df)) = max 1 z"
    unfolding z_def by (rule total_pages_div)
  ultimately have "int (length df) \<le> total_pages (int (length df)) * 20"
    by linarith
  moreover have "0 \<le> total_pages (int (length df))"
    by (simp add: total_pages_div)
  ultimately have "length df \<le> nat (total_pages (int (length df))) * ROWS_PER_PAGE"
    unfolding ROWS_PER_PAGE_def by linarith
  then have "concat (map (\<lambda>p. paginate df (int p) ROWS_PER_PAGE)
      [1 ..< Suc (nat (total_pages (int (length df))))]) = df"
    by (rule concat_paginate)
  with len gen show ?thesis unfolding q_def by simp
qed

theorem paginate_pages_rebuild_sequence_witness:
  "length (paginate [1, 2, 3 :: int] 2 2) \<le> 2
   \<and> paginate [1, 2, 3 :: int] 1 2 @ paginate [1, 2, 3 :: int] 2 2 = [1, 2, 3]"
proof -
  have h: "1 \<le> (2::nat)" by simp
  have "max 1 ((length [1, 2, 3 :: int] + 2 - 1) div 2) = (2::nat)" by simp
  then show ?thesis
    using paginate_pages_rebuild_sequence [OF h, of "[1, 2, 3 :: int]" 2] by simp
qed

section \<open>Sorting\<close>








lemma column_order_total_preorder: "total_preorder (column_order col descending)"
  unfolding total_preorder_def column_order_def
  by (auto split: option.splits)


lemma sort_contract_rearranges:
  assumes "sort_contract srt" "total_preorder le"
  shows "ordered_rearrangement le xs (srt le xs)"
  using assms unfolding sort_contract_def ordered_rearrangement_def by blast



section \<open>The filters\<close>

lemma kleene_and_True: "kleene_and a b = Some True \<longleftrightarrow> a = Some True \<and> b = Some True"
  by (cases "(a, b)" rule: kleene_and.cases) auto

lemma popular_predicate_True:
  "popular_predicate pat rr mc g = Some True \<longleftrightarrow>
     (\<exists>t r n. name g = Some t \<and> regex_search pat (to_lowercase t)
        \<and> rating g = Some r \<and> of_int (fst rr) \<le> r \<and> r \<le> of_int (snd rr)
        \<and> rating_count g = Some n \<and> mc \<le> n)"
  unfolding popular_predicate_def kleene_and_True name_contains_def str_contains_def
    col_ge_def col_le_def
  by (cases "name g"; cases "rating g"; cases "rating_count g") auto

lemma upcoming_predicate_True:
  "upcoming_predicate today pat lo hi g = Some True \<longleftrightarrow>
     (\<exists>d t h. first_release_date g = Some d \<and> today < d
        \<and> name g = Some t \<and> regex_search pat (to_lowercase t)
        \<and> hypes g = Some h \<and> lo \<le> h \<and> h \<le> hi)"
  unfolding upcoming_predicate_def kleene_and_True name_contains_def str_contains_def
    col_ge_def col_le_def col_gt_def
  by (cases "name g"; cases "first_release_date g"; cases "hypes g") auto


lemma filter_upcoming_data_Inr:
  "filter_upcoming_data srt today df search lo hi sb ord = Inr out \<longleftrightarrow>
     (\<exists>pat. compile_regex (to_lowercase search) = Some pat
        \<and> out = srt (upcoming_order sb ord) (df_filter (upcoming_predicate today pat lo hi) df))"
  unfolding filter_upcoming_data_def df_sort_def Let_def upcoming_order_def sort_order_def
  by (auto split: option.splits)

lemma upcoming_order_total_preorder: "total_preorder (upcoming_order sb ord)"
  unfolding upcoming_order_def by (simp add: column_order_total_preorder)

lemma compile_regex_plain: "plain_text s \<Longrightarrow> compile_regex s = Some (map Lit s)"
proof (induction s)
  case Nil
  show ?case by simp
next
  case (Cons c cs)
  then have "\<not> is_meta_character c" "plain_text cs"
    by (simp_all add: plain_text_def)
  moreover from this have "c \<noteq> CHR ''.''"
    by (auto simp: is_meta_character_def)
  ultimately show ?case using Cons.IH by (simp add: parse_atom_def)
qed

lemma match_here_Lit: "match_here (map Lit s) t \<longleftrightarrow> prefix s t"
  by (induction s arbitrary: t) (simp, case_tac t, simp_all)

lemma regex_search_Lit: "regex_search (map Lit s) t \<longleftrightarrow> sublist s t"
proof (induction t)
  case Nil
  show ?case by (cases s) simp_all
next
  case (Cons c t)
  show ?case
  proof (cases s)
    case Nil
    then show ?thesis by simp
  next
    case (Cons a as)
    have "regex_search (map Lit s) (c # t) \<longleftrightarrow> prefix s (c # t) \<or> sublist s t"
      using Cons.IH by (simp only: regex_search.simps match_here_Lit)
    then show ?thesis using Cons by (simp only: sublist_code)
  qed
qed

lemma lower_char_meta: "is_meta_character (lower_char c) \<Longrightarrow> is_meta_character c"
proof (cases "65 \<le> (of_char c :: nat) \<and> (of_char c :: nat) \<le> 90")
  case False
  then show "is_meta_character (lower_char c) \<Longrightarrow> is_meta_character c"
    by (simp add: lower_char_def Let_def)
next
  case True
  define n where "n = (of_char c :: nat)"
  have n: "65 \<le> n" "n \<le> 90" using True by (simp_all add: n_def)
  have lc: "lower_char c = char_of (n + 32)"
    using True by (simp add: lower_char_def Let_def n_def)
  have "(of_char (char_of (n + 32)) :: nat) = n + 32"
    using n by simp
  assume "is_meta_character (lower_char c)"
  then have "(of_char (lower_char c) :: nat) \<in> of_char ` set (CHR 0x5C # ''.+*?()|[]{}^$#&-~'')"
    unfolding is_meta_character_def by (rule imageI)
  then have "n + 32 \<in> {92, 46, 43, 42, 63, 40, 41, 124, 91, 93, 123, 125, 94, 36, 35, 38, 45, 126}"
    using \<open>(of_char (char_of (n + 32)) :: nat) = n + 32\<close> unfolding lc by simp
  with n show "is_meta_character c" by simp
qed

lemma plain_text_lower: "plain_text s \<Longrightarrow> plain_text (to_lowercase s)"
  unfolding plain_text_def to_lowercase_def
  by (auto simp: list_all_iff dest: lower_char_meta)

lemma popular_predicate_plain:
  assumes "plain_text search"
  shows "compile_regex (to_lowercase search) = Some (map Lit (to_lowercase search))"
    and "popular_predicate (map Lit (to_lowercase search)) (lo, hi) mc g = Some True
         \<longleftrightarrow> popular_spec search lo hi mc g"
proof -
  show "compile_regex (to_lowercase search) = Some (map Lit (to_lowercase search))"
    using assms by (simp add: compile_regex_plain plain_text_lower)
  show "popular_predicate (map Lit (to_lowercase search)) (lo, hi) mc g = Some True
         \<longleftrightarrow> popular_spec search lo hi mc g"
    unfolding popular_predicate_True popular_spec_def title_contains_def regex_search_Lit
    by (auto split: option.splits)
qed

lemma upcoming_predicate_plain:
  "upcoming_predicate today (map Lit (to_lowercase search)) lo hi g = Some True
     \<longleftrightarrow> upcoming_spec today search lo hi g"
  unfolding upcoming_predicate_True upcoming_spec_def title_contains_def regex_search_Lit
  by (auto split: option.splits)


lemma filter_upcoming_data_plain_search:
  assumes "sort_contract srt" "plain_text search"
  shows "\<exists>out. filter_upcoming_data srt today df search lo hi sb ord = Inr out
           \<and> mset out = mset (filter (upcoming_spec today search lo hi) df)
           \<and> set out = {g \<in> set df. upcoming_spec today search lo hi g}"
proof -
  let ?pat = "map Lit (to_lowercase search)"
  let ?out = "srt (upcoming_order sb ord) (df_filter (upcoming_predicate today ?pat lo hi) df)"
  have run: "filter_upcoming_data srt today df search lo hi sb ord = Inr ?out"
    unfolding filter_upcoming_data_Inr using popular_predicate_plain(1) [OF assms(2)] by blast
  have same: "df_filter (upcoming_predicate today ?pat lo hi) df = filter (upcoming_spec today search lo hi) df"
    unfolding df_filter_def upcoming_predicate_plain ..
  have "ordered_rearrangement (upcoming_order sb ord) (filter (upcoming_spec today search lo hi) df) ?out"
    unfolding same
    by (rule sort_contract_rearranges [OF assms(1) upcoming_order_total_preorder])
  then have ms: "mset ?out = mset (filter (upcoming_spec today search lo hi) df)"
    unfolding ordered_rearrangement_def by blast
  then have "set ?out = set (filter (upcoming_spec today search lo hi) df)"
    by (rule mset_eq_setD)
  then have "set ?out = {g \<in> set df. upcoming_spec today search lo hi g}"
    by simp
  with run ms show ?thesis by blast
qed

text \<open>
  C1. The claim: a row is in the output of \<open>filter_data\<close> exactly when it is in the
  snapshot, the search string is a case-insensitive substring of its title, its rating is
  in the inclusive range and its rating count reaches the minimum. For a search string in
  plain text this is \<open>filter_data_plain_search\<close> above. It fails for a search string with
  a metacharacter, because the code hands the string to \<^verbatim>\<open>str.contains\<close> as a regular
  expression: the search \<open>.\<close> returns the row titled \<open>Halo\<close>, whose title has no dot.
\<close>

theorem dot_search_matches_titles_without_dot:
  "filter_data stable_sort_by [sample_game 1 ''Halo'' 90 10 100 5] ''.'' (0, 100) 0
       ''rating_count'' ''DESC''
     = Inr [sample_game 1 ''Halo'' 90 10 100 5]
   \<and> \<not> popular_spec ''.'' 0 100 0 (sample_game 1 ''Halo'' 90 10 100 5)
   \<and> \<not> title_contains ''.'' ''Halo''"
  by code_simp

text \<open>
  C2. The claim: a row is in the output of \<open>filter_upcoming_data\<close> exactly when it is in
  the snapshot, its release date is strictly after the current date, the search string is
  a case-insensitive substring of its title and its hype count is in the inclusive range.
  For a search string in plain text this is \<open>filter_upcoming_data_plain_search\<close> above. It
  fails in the same way as the popular filter: on day 60 the search \<open>.\<close> returns the row
  titled \<open>Halo\<close> (release day 100, hype 5), whose title has no dot.
\<close>

theorem dot_search_matches_upcoming_titles_without_dot:
  "filter_upcoming_data stable_sort_by 60 [sample_game 1 ''Halo'' 90 10 100 5] ''.'' 0 10
       ''Hypes'' ''Descending''
     = Inr [sample_game 1 ''Halo'' 90 10 100 5]
   \<and> \<not> upcoming_spec 60 ''.'' 0 10 (sample_game 1 ''Halo'' 90 10 100 5)
   \<and> \<not> title_contains ''.'' ''Halo''"
  by code_simp












section \<open>The page number\<close>



















end
